theory Spec2Isabelle
  imports Complex_Main "HOL-Library.AList" "HOL-Library.Monad_Syntax"
begin

section \<open>NanEcho automation integration: the decision engine\<close>

text \<open>
  A shallow embedding of \<^verbatim>\<open>src/echoself/NanEcho/automation_integration.py\<close>, class
  \<^verbatim>\<open>NanEchoAutomationIntegrator\<close>.

  Scores and thresholds are Python floats. They are modelled as \<^typ>\<open>real\<close>: the
  properties below depend on which values are compared and with which relation, not on
  rounding. The product \<^verbatim>\<open>x * 0.8\<close> and the difference \<^verbatim>\<open>current - previous\<close>
  are the exact ones; in the concrete runs below a score that meets a bound exactly is a
  dyadic rational, as is the bound, and every other score is far from its threshold.
\<close>

subsection \<open>JSON documents and the configuration file\<close>

text \<open>What \<^verbatim>\<open>json.load\<close> returns. A dictionary is an association list in insertion order.\<close>

datatype json =
    JNull
  | JBool bool
  | JNum real
  | JStr string
  | JArr "json list"
  | JObj "(string \<times> json) list"





subsection \<open>The configuration as the decision functions read it\<close>

record quality_gates =
  min_fidelity_production :: real
  min_fidelity_development :: real
  min_identity_recognition :: real
  min_persona_consistency :: real
  max_performance_decline :: real

record training_triggers =
  auto_retrain_on_failure :: bool
  relentless_training_interval_hours :: real
  max_consecutive_failures :: real
  performance_improvement_threshold :: real

record feedback_integration =
  enable_hyperparameter_adjustment :: bool
  enable_dataset_enhancement :: bool
  enable_curriculum_adaptation :: bool
  max_training_iterations_increase :: real

record deployment =
  enable_automated_deployment :: bool
  require_manual_approval :: bool
  staging_environment_tests :: bool

record config =
  cfg_quality_gates :: quality_gates
  cfg_training_triggers :: training_triggers
  cfg_feedback_integration :: feedback_integration
  cfg_deployment :: deployment








text \<open>The default configuration, read that way.\<close>

definition default_cfg :: config where
  "default_cfg =
     \<lparr>cfg_quality_gates =
        \<lparr>min_fidelity_production = 0.85, min_fidelity_development = 0.70,
         min_identity_recognition = 0.80, min_persona_consistency = 0.75,
         max_performance_decline = 0.10\<rparr>,
      cfg_training_triggers =
        \<lparr>auto_retrain_on_failure = True, relentless_training_interval_hours = 4,
         max_consecutive_failures = 3, performance_improvement_threshold = 0.05\<rparr>,
      cfg_feedback_integration =
        \<lparr>enable_hyperparameter_adjustment = True, enable_dataset_enhancement = True,
         enable_curriculum_adaptation = True, max_training_iterations_increase = 2.0\<rparr>,
      cfg_deployment =
        \<lparr>enable_automated_deployment = False, require_manual_approval = True,
         staging_environment_tests = True\<rparr>\<rparr>"

subsection \<open>Metrics and the quality gates\<close>

text \<open>
  \<^verbatim>\<open>fidelity_metrics: Dict[str, float]\<close>, read with \<^verbatim>\<open>.get(key, 0.0)\<close>.
\<close>

type_synonym metrics = "string \<rightharpoonup> real"

definition get_metric :: "metrics \<Rightarrow> string \<Rightarrow> real" where
  "get_metric m k = (case m k of None \<Rightarrow> 0.0 | Some v \<Rightarrow> v)"

record gate =
  passed :: bool
  score :: real
  threshold :: real

record individual_gates =
  gate_overall_fidelity :: gate
  gate_identity_recognition :: gate
  gate_persona_consistency :: gate

text \<open>The entries of \<^verbatim>\<open>individual_gates\<close> in the order the dictionary literal gives them.\<close>

definition gate_items :: "individual_gates \<Rightarrow> (string \<times> gate) list" where
  "gate_items g =
     [(''overall_fidelity'', gate_overall_fidelity g),
      (''identity_recognition'', gate_identity_recognition g),
      (''persona_consistency'', gate_persona_consistency g)]"

record quality_status =
  status :: string
  overall_passed :: bool
  individual_gates :: individual_gates
  min_required_fidelity :: real
  deployment_ready :: bool

definition evaluate_quality_gates :: "config \<Rightarrow> metrics \<Rightarrow> string \<Rightarrow> quality_status" where
  "evaluate_quality_gates cfg fidelity_metrics training_mode =
     (let gates = cfg_quality_gates cfg;
          min_fidelity =
            (if training_mode = ''relentless'' then min_fidelity_production gates
             else if training_mode = ''ci'' then min_fidelity_development gates * 0.8
             else min_fidelity_development gates);
          overall_fidelity = get_metric fidelity_metrics ''overall_fidelity'';
          identity_recognition = get_metric fidelity_metrics ''identity_recognition'';
          persona_consistency = get_metric fidelity_metrics ''persona_consistency'';
          gates_status =
            \<lparr>gate_overall_fidelity =
               \<lparr>passed = overall_fidelity \<ge> min_fidelity,
                score = overall_fidelity,
                threshold = min_fidelity\<rparr>,
             gate_identity_recognition =
               \<lparr>passed = identity_recognition \<ge> min_identity_recognition gates,
                score = identity_recognition,
                threshold = min_identity_recognition gates\<rparr>,
             gate_persona_consistency =
               \<lparr>passed = persona_consistency \<ge> min_persona_consistency gates,
                score = persona_consistency,
                threshold = min_persona_consistency gates\<rparr>\<rparr>;
          all_passed = list_all (\<lambda>(name, gate). passed gate) (gate_items gates_status)
      in \<lparr>status = (if all_passed then ''passed'' else ''failed''),
          overall_passed = all_passed,
          individual_gates = gates_status,
          min_required_fidelity = min_fidelity,
          deployment_ready = (all_passed \<and> overall_fidelity \<ge> min_fidelity_production gates)\<rparr>)"

subsection \<open>Performance trends\<close>

text \<open>
  One entry of \<^verbatim>\<open>improvement_history\<close>, as \<^verbatim>\<open>save_analysis_results\<close> writes it.
\<close>

record history_entry =
  h_timestamp :: string
  h_fidelity_metrics :: metrics
  h_quality_status :: string
  h_training_mode :: string

text \<open>
  The result for an empty history has no \<^verbatim>\<open>previous_fidelity\<close> and no
  \<^verbatim>\<open>current_fidelity\<close> key.
\<close>

record performance_analysis =
  trend :: string
  change :: real
  trend_status :: string
  previous_fidelity :: "real option"
  current_fidelity :: "real option"

definition analyze_performance_trends ::
  "config \<Rightarrow> history_entry list \<Rightarrow> metrics \<Rightarrow> performance_analysis" where
  "analyze_performance_trends cfg improvement_history current_metrics =
     (if improvement_history = [] then
        \<lparr>trend = ''initial'', change = 0.0, trend_status = ''baseline'',
         previous_fidelity = None, current_fidelity = None\<rparr>
      else
        let previous_metrics = h_fidelity_metrics (last improvement_history);
            previous = get_metric previous_metrics ''overall_fidelity'';
            current = get_metric current_metrics ''overall_fidelity'';
            chg = current - previous;
            thr = performance_improvement_threshold (cfg_training_triggers cfg);
            (trend, status) =
              (if chg > thr then (''improving'', ''good'')
               else if chg < - max_performance_decline (cfg_quality_gates cfg)
                 then (''declining'', ''concerning'')
               else (''stable'', ''neutral''))
        in \<lparr>trend = trend, change = chg, trend_status = status,
            previous_fidelity = Some previous, current_fidelity = Some current\<rparr>)"

subsection \<open>Recommendations\<close>

record recommendations =
  immediate :: "string list"
  next_training_cycle :: "string list"
  long_term :: "string list"
  rec_hyperparameter_adjustments :: "string list"

text \<open>The loop over the failed gates, one gate name at a time.\<close>

fun recommend_failed_gates :: "string list \<Rightarrow> recommendations \<Rightarrow> recommendations" where
  "recommend_failed_gates [] r = r"
| "recommend_failed_gates (gate # rest) r =
     recommend_failed_gates rest
       (if gate = ''identity_recognition'' then
          r\<lparr>immediate := immediate r @ [''Increase Echo Self identity training examples''],
            rec_hyperparameter_adjustments :=
              rec_hyperparameter_adjustments r @ [''increase_identity_weight'']\<rparr>
        else if gate = ''persona_consistency'' then
          r\<lparr>immediate := immediate r @ [''Balance training across all persona dimensions''],
            rec_hyperparameter_adjustments :=
              rec_hyperparameter_adjustments r @ [''balance_persona_weights'']\<rparr>
        else if gate = ''overall_fidelity'' then
          r\<lparr>immediate := immediate r @ [''Review overall training approach''],
            rec_hyperparameter_adjustments :=
              rec_hyperparameter_adjustments r @ [''extend_training_duration'']\<rparr>
        else r)"

definition generate_improvement_recommendations ::
  "metrics \<Rightarrow> string \<Rightarrow> quality_status \<Rightarrow> recommendations" where
  "generate_improvement_recommendations fidelity_metrics training_mode qs =
     (let r0 = \<lparr>immediate = [], next_training_cycle = [], long_term = [],
                rec_hyperparameter_adjustments = []\<rparr>;
          overall_fidelity = get_metric fidelity_metrics ''overall_fidelity'';
          failed_gates =
            map fst (filter (\<lambda>(name, gate). \<not> passed gate) (gate_items (individual_gates qs)));
          r1 = recommend_failed_gates failed_gates r0;
          r2 =
            (if overall_fidelity < 0.6 then
               r1\<lparr>next_training_cycle := next_training_cycle r1 @
                 [''Increase training iterations significantly'',
                  ''Enhance data quality and diversity'',
                  ''Review model architecture parameters'']\<rparr>
             else if overall_fidelity < 0.8 then
               r1\<lparr>next_training_cycle := next_training_cycle r1 @
                 [''Fine-tune with targeted examples'',
                  ''Adjust attention mechanism parameters'']\<rparr>
             else r1)
      in if training_mode = ''relentless'' then
           (let r3 =
              (if overall_fidelity < 0.85 then
                 r2\<lparr>next_training_cycle := next_training_cycle r2 @
                   [''Increase relentless training frequency'']\<rparr>
               else r2)
            in r3\<lparr>long_term := long_term r3 @ [''Monitor continuous improvement trends'']\<rparr>)
         else
           (if overall_fidelity > 0.75 then
              r2\<lparr>next_training_cycle := next_training_cycle r2 @
                [''Consider enabling relentless training mode'']\<rparr>
            else r2))"

subsection \<open>Next actions\<close>

record next_actions =
  continue_training :: bool
  deploy_model :: bool
  retrain_required :: bool
  enable_relentless_mode :: bool
  schedule_next_cycle :: bool
  manual_review_needed :: bool

text \<open>
  \<^verbatim>\<open>_determine_next_actions\<close> in its two parts: the \<^verbatim>\<open>if/elif/else\<close> chain on the gate
  result, and the rule for relentless mode that follows it.
\<close>

definition decision_table :: "quality_status \<Rightarrow> string \<Rightarrow> next_actions" where
  "decision_table qs training_mode =
     (let actions = \<lparr>continue_training = False, deploy_model = False,
                     retrain_required = False, enable_relentless_mode = False,
                     schedule_next_cycle = False, manual_review_needed = False\<rparr>
      in if deployment_ready qs then
           (if training_mode \<noteq> ''relentless'' then
              actions\<lparr>deploy_model := True, enable_relentless_mode := True,
                      schedule_next_cycle := True\<rparr>
            else actions\<lparr>deploy_model := True\<rparr>)
         else if status qs = ''passed'' then
           actions\<lparr>continue_training := True, schedule_next_cycle := True\<rparr>
         else if score (gate_overall_fidelity (individual_gates qs)) < 0.5 then
           actions\<lparr>retrain_required := True, manual_review_needed := True\<rparr>
         else
           actions\<lparr>continue_training := True, schedule_next_cycle := True\<rparr>)"

definition determine_next_actions ::
  "quality_status \<Rightarrow> recommendations \<Rightarrow> string \<Rightarrow> next_actions" where
  "determine_next_actions qs recs training_mode =
     (let actions = decision_table qs training_mode
      in if training_mode = ''relentless'' \<and> \<not> deployment_ready qs
         then actions\<lparr>schedule_next_cycle := True\<rparr>
         else actions)"

subsection \<open>Automation triggers\<close>

record automation_triggers =
  trigger_next_training :: bool
  training_delay_hours :: real
  hyperparameter_adjustments :: "string \<rightharpoonup> string"
  dataset_enhancements :: "string list"
  notification_required :: bool

definition generate_automation_triggers ::
  "config \<Rightarrow> quality_status \<Rightarrow> string \<Rightarrow> automation_triggers" where
  "generate_automation_triggers cfg qs training_mode =
     (let triggers = \<lparr>trigger_next_training = False, training_delay_hours = 0,
                      hyperparameter_adjustments = Map.empty, dataset_enhancements = [],
                      notification_required = False\<rparr>;
          tt = cfg_training_triggers cfg;
          t1 = (if \<not> overall_passed qs \<and> auto_retrain_on_failure tt then
                  triggers\<lparr>trigger_next_training := True, training_delay_hours := 1,
                           notification_required := True\<rparr>
                else triggers);
          t2 = (if training_mode = ''relentless'' then
                  t1\<lparr>trigger_next_training := True,
                     training_delay_hours := relentless_training_interval_hours tt\<rparr>
                else t1);
          overall_fidelity = score (gate_overall_fidelity (individual_gates qs))
      in if overall_fidelity < 0.7 then
           t2\<lparr>hyperparameter_adjustments :=
                (hyperparameter_adjustments t2)
                  (''learning_rate'' \<mapsto> ''increase'', ''max_iters'' \<mapsto> ''increase'')\<rparr>
         else t2)"

subsection \<open>The integrator: analysis and saving\<close>

record analysis_results =
  timestamp :: string
  model_path :: string
  training_mode :: string
  overall_fidelity :: real
  quality_gate_status :: quality_status
  performance_analysis :: performance_analysis
  recommendations :: recommendations
  next_actions :: next_actions
  automation_triggers :: automation_triggers

record integrator =
  config :: config
  results_cache :: "string \<rightharpoonup> analysis_results"
  improvement_history :: "history_entry list"

text \<open>\<^verbatim>\<open>__init__\<close>, with the configuration already loaded.\<close>

definition init :: "config \<Rightarrow> integrator" where
  "init cfg = \<lparr>config = cfg, results_cache = Map.empty, improvement_history = []\<rparr>"

text \<open>
  \<^verbatim>\<open>analyze_training_results\<close>. The report store and the evaluator are outside this module:
  \<open>evaluation_data\<close> is the \<^verbatim>\<open>fidelity_metrics\<close> entry of the report that was loaded or
  produced (\<open>None\<close> when the report has no such entry), and \<open>now1\<close>, \<open>now2\<close> are the two
  readings of the clock. The result is the returned dictionary and the integrator after
  the call.
\<close>

definition analyze_training_results ::
  "integrator \<Rightarrow> string \<Rightarrow> metrics option \<Rightarrow> string \<Rightarrow> string \<Rightarrow> string
     \<Rightarrow> analysis_results \<times> integrator" where
  "analyze_training_results self mpath evaluation_data mode now1 now2 =
     (let fidelity_metrics = (case evaluation_data of None \<Rightarrow> Map.empty | Some m \<Rightarrow> m);
          overall = get_metric fidelity_metrics ''overall_fidelity'';
          qs = evaluate_quality_gates (config self) fidelity_metrics mode;
          pa = analyze_performance_trends (config self) (improvement_history self) fidelity_metrics;
          recs = generate_improvement_recommendations fidelity_metrics mode qs;
          acts = determine_next_actions qs recs mode;
          res = \<lparr>timestamp = now1, model_path = mpath, training_mode = mode,
                 overall_fidelity = overall, quality_gate_status = qs,
                 performance_analysis = pa, recommendations = recs, next_actions = acts,
                 automation_triggers = generate_automation_triggers (config self) qs mode\<rparr>
      in (res, self\<lparr>results_cache := (results_cache self)(now2 \<mapsto> res)\<rparr>))"

text \<open>
  \<^verbatim>\<open>save_analysis_results\<close>: the effect on the integrator (the file it writes afterwards
  belongs to the report store).
\<close>

definition save_analysis_results :: "integrator \<Rightarrow> analysis_results \<Rightarrow> integrator" where
  "save_analysis_results self results =
     self\<lparr>improvement_history := improvement_history self @
       [\<lparr>h_timestamp = timestamp results,
         h_fidelity_metrics = [''overall_fidelity'' \<mapsto> overall_fidelity results],
         h_quality_status = status (quality_gate_status results),
         h_training_mode = training_mode results\<rparr>]\<rparr>"

text \<open>Any number of analyses in a row, none of them saved.\<close>

fun analyze_repeatedly ::
  "integrator \<Rightarrow> (string \<times> metrics option \<times> string \<times> string \<times> string) list \<Rightarrow> integrator" where
  "analyze_repeatedly self [] = self"
| "analyze_repeatedly self ((mpath, ev, mode, now1, now2) # rest) =
     analyze_repeatedly (snd (analyze_training_results self mpath ev mode now1 now2)) rest"

subsection \<open>Concrete runs\<close>

text \<open>A report in which the overall score and each of the six dimensions is \<open>v\<close>.\<close>

definition metrics_all :: "real \<Rightarrow> metrics" where
  "metrics_all v =
     [''identity_recognition'' \<mapsto> v, ''persona_consistency'' \<mapsto> v,
      ''adaptive_attention_understanding'' \<mapsto> v, ''recursive_reasoning_capability'' \<mapsto> v,
      ''hypergraph_comprehension'' \<mapsto> v, ''cognitive_synergy_demonstration'' \<mapsto> v,
      ''overall_fidelity'' \<mapsto> v]"

definition no_recommendations :: recommendations where
  "no_recommendations = \<lparr>immediate = [], next_training_cycle = [], long_term = [],
     rec_hyperparameter_adjustments = []\<rparr>"









text \<open>A first analysis on a fresh integrator, every score at 0.5, in standard mode.\<close>

definition run0 :: "analysis_results \<times> integrator" where
  "run0 = analyze_training_results (init default_cfg) ''model.pt'' (Some (metrics_all 0.5))
     ''standard'' ''2025-01-01T00:00:00'' ''2025-01-01T00:00:01''"

text \<open>A deployment group with automated deployment switched on.\<close>

definition automated_deployment :: deployment where
  "automated_deployment =
     \<lparr>enable_automated_deployment = True, require_manual_approval = False,
      staging_environment_tests = False\<rparr>"

section \<open>Properties\<close>

subsection \<open>Reading metrics\<close>

lemma get_metric_upd: "get_metric (m(k \<mapsto> v)) k = v"
  by (simp add: get_metric_def)

lemma get_metric_all [simp]:
  "get_metric (metrics_all v) ''overall_fidelity'' = v"
  "get_metric (metrics_all v) ''identity_recognition'' = v"
  "get_metric (metrics_all v) ''persona_consistency'' = v"
  by (simp_all add: get_metric_def metrics_all_def)

subsection \<open>Quality gates\<close>

text \<open>
  C1. For every metrics record, mode and configuration, the gate result's
  \<open>deployment_ready\<close> is true exactly when all three named gates passed and the overall
  fidelity is at least \<open>min_fidelity_production\<close>; so \<open>deployment_ready\<close> implies
  \<open>overall_passed\<close>, in every mode.
\<close>

theorem deployment_ready_iff:
  "(deployment_ready (evaluate_quality_gates cfg m mode) \<longleftrightarrow>
      (passed (gate_overall_fidelity (individual_gates (evaluate_quality_gates cfg m mode))) \<and>
       passed (gate_identity_recognition (individual_gates (evaluate_quality_gates cfg m mode))) \<and>
       passed (gate_persona_consistency (individual_gates (evaluate_quality_gates cfg m mode)))) \<and>
      get_metric m ''overall_fidelity'' \<ge> min_fidelity_production (cfg_quality_gates cfg)) \<and>
   (deployment_ready (evaluate_quality_gates cfg m mode) \<longrightarrow>
      overall_passed (evaluate_quality_gates cfg m mode))"
  by (simp add: evaluate_quality_gates_def gate_items_def Let_def)

text \<open>A CI run with every score at 0.875 is ready for deployment, and has passed.\<close>

theorem deployment_ready_iff_witness:
  "deployment_ready (evaluate_quality_gates default_cfg (metrics_all 0.875) ''ci'') \<and>
   overall_passed (evaluate_quality_gates default_cfg (metrics_all 0.875) ''ci'')"
proof -
  have "deployment_ready (evaluate_quality_gates default_cfg (metrics_all 0.875) ''ci'')"
    by (simp add: evaluate_quality_gates_def gate_items_def default_cfg_def Let_def)
  with deployment_ready_iff [of default_cfg "metrics_all 0.875" "''ci''"]
  show ?thesis by blast
qed



subsection \<open>Next actions\<close>

text \<open>
  C3. For a gate result whose status is \<open>failed\<close> and which is not ready for deployment,
  planning sets \<open>retrain_required\<close> and \<open>manual_review_needed\<close> when the overall-fidelity
  gate's score is strictly below 0.5, and otherwise sets \<open>continue_training\<close> and
  \<open>schedule_next_cycle\<close>; a score of exactly 0.5 is on the \<open>continue_training\<close> side.
\<close>

theorem failed_gate_actions:
  assumes "status qs = ''failed''" and "\<not> deployment_ready qs"
  shows "(score (gate_overall_fidelity (individual_gates qs)) < 0.5 \<longrightarrow>
            retrain_required (determine_next_actions qs recs mode) \<and>
            manual_review_needed (determine_next_actions qs recs mode) \<and>
            \<not> continue_training (determine_next_actions qs recs mode)) \<and>
         (\<not> score (gate_overall_fidelity (individual_gates qs)) < 0.5 \<longrightarrow>
            continue_training (determine_next_actions qs recs mode) \<and>
            schedule_next_cycle (determine_next_actions qs recs mode) \<and>
            \<not> retrain_required (determine_next_actions qs recs mode) \<and>
            \<not> manual_review_needed (determine_next_actions qs recs mode))"
  using assms by (simp add: determine_next_actions_def decision_table_def Let_def)

text \<open>
  The scenario with every score at 0.5 in standard mode under the defaults: the gates
  fail, the score is 0.5, and training continues.
\<close>

theorem failed_gate_actions_witness:
  "status (evaluate_quality_gates default_cfg (metrics_all 0.5) ''standard'') = ''failed'' \<and>
   \<not> deployment_ready (evaluate_quality_gates default_cfg (metrics_all 0.5) ''standard'') \<and>
   \<not> overall_passed (evaluate_quality_gates default_cfg (metrics_all 0.5) ''standard'') \<and>
   score (gate_overall_fidelity (individual_gates
     (evaluate_quality_gates default_cfg (metrics_all 0.5) ''standard''))) = 0.5 \<and>
   continue_training (determine_next_actions
     (evaluate_quality_gates default_cfg (metrics_all 0.5) ''standard'')
     no_recommendations ''standard'') \<and>
   \<not> retrain_required (determine_next_actions
     (evaluate_quality_gates default_cfg (metrics_all 0.5) ''standard'')
     no_recommendations ''standard'')"
proof -
  let ?qs = "evaluate_quality_gates default_cfg (metrics_all 0.5) ''standard''"
  have s: "status ?qs = ''failed''" and d: "\<not> deployment_ready ?qs"
    and p: "\<not> overall_passed ?qs"
    and f: "score (gate_overall_fidelity (individual_gates ?qs)) = 0.5"
    by (simp_all add: evaluate_quality_gates_def gate_items_def default_cfg_def Let_def)
  from f have "\<not> score (gate_overall_fidelity (individual_gates ?qs)) < 0.5" by simp
  with failed_gate_actions [OF s d, of no_recommendations "''standard''"] s d p f
  show ?thesis by blast
qed

subsection \<open>Automation triggers\<close>

text \<open>
  C4. In relentless mode the triggers have \<open>trigger_next_training\<close> set and
  \<open>training_delay_hours\<close> equal to the configured
  \<open>relentless_training_interval_hours\<close> (4 by default), whatever the gate result; outside
  relentless mode a failed run with \<open>auto_retrain_on_failure\<close> has the delay 1, which is
  the value the relentless rule replaces.
\<close>

theorem relentless_triggers:
  "(mode = ''relentless'' \<longrightarrow>
      trigger_next_training (generate_automation_triggers cfg qs mode) \<and>
      training_delay_hours (generate_automation_triggers cfg qs mode) =
        relentless_training_interval_hours (cfg_training_triggers cfg)) \<and>
   (mode \<noteq> ''relentless'' \<and> \<not> overall_passed qs \<and>
      auto_retrain_on_failure (cfg_training_triggers cfg) \<longrightarrow>
      trigger_next_training (generate_automation_triggers cfg qs mode) \<and>
      training_delay_hours (generate_automation_triggers cfg qs mode) = 1) \<and>
   relentless_training_interval_hours (cfg_training_triggers default_cfg) = 4"
  by (simp add: generate_automation_triggers_def default_cfg_def Let_def)

text \<open>A failed relentless run under the defaults is rescheduled after 4 hours, not 1.\<close>

theorem relentless_triggers_witness:
  "\<not> overall_passed (evaluate_quality_gates default_cfg (metrics_all 0.5) ''relentless'') \<and>
   auto_retrain_on_failure (cfg_training_triggers default_cfg) \<and>
   trigger_next_training (generate_automation_triggers default_cfg
     (evaluate_quality_gates default_cfg (metrics_all 0.5) ''relentless'') ''relentless'') \<and>
   training_delay_hours (generate_automation_triggers default_cfg
     (evaluate_quality_gates default_cfg (metrics_all 0.5) ''relentless'') ''relentless'') = 4"
proof -
  have "\<not> overall_passed (evaluate_quality_gates default_cfg (metrics_all 0.5) ''relentless'')"
    by (simp add: evaluate_quality_gates_def gate_items_def default_cfg_def Let_def)
  moreover have "auto_retrain_on_failure (cfg_training_triggers default_cfg)"
    by (simp add: default_cfg_def)
  ultimately show ?thesis
    using relentless_triggers [of "''relentless''" default_cfg
      "evaluate_quality_gates default_cfg (metrics_all 0.5) ''relentless''"]
    by simp
qed

subsection \<open>Performance trends\<close>




subsection \<open>Evaluating and saving\<close>

lemma analyze_history [simp]:
  "improvement_history (snd (analyze_training_results self p ev mode n1 n2)) = improvement_history self"
  by (simp add: analyze_training_results_def Let_def)

lemma analyze_config [simp]:
  "config (snd (analyze_training_results self p ev mode n1 n2)) = config self"
  by (simp add: analyze_training_results_def Let_def)

lemma analyze_repeatedly_frame:
  "improvement_history (analyze_repeatedly self runs) = improvement_history self \<and>
   config (analyze_repeatedly self runs) = config self"
  by (induction self runs rule: analyze_repeatedly.induct) simp_all

text \<open>
  C6. An analysis leaves \<open>improvement_history\<close> as it was, and so does any number of
  analyses in a row; the trend result of a later analysis is therefore the one it would
  have been without them. Saving appends exactly one entry, made of the result's
  timestamp, overall fidelity, quality-gate status and training mode.
\<close>

theorem evaluation_leaves_history:
  "improvement_history (snd (analyze_training_results self p ev mode n1 n2)) =
     improvement_history self \<and>
   improvement_history (analyze_repeatedly self runs) = improvement_history self \<and>
   performance_analysis (fst (analyze_training_results (analyze_repeatedly self runs) p ev mode n1 n2)) =
     performance_analysis (fst (analyze_training_results self p ev mode n1 n2)) \<and>
   improvement_history (save_analysis_results self r) =
     improvement_history self @
       [\<lparr>h_timestamp = timestamp r,
         h_fidelity_metrics = [''overall_fidelity'' \<mapsto> overall_fidelity r],
         h_quality_status = status (quality_gate_status r),
         h_training_mode = training_mode r\<rparr>] \<and>
   length (improvement_history (save_analysis_results self r)) =
     Suc (length (improvement_history self))"
  by (simp add: analyze_repeatedly_frame save_analysis_results_def)
     (simp add: analyze_training_results_def Let_def analyze_repeatedly_frame)

text \<open>
  After a first analysis the history is still empty and the next trend is \<open>initial\<close>;
  once the first result is saved the history has one entry and the next trend compares
  with it.
\<close>

theorem evaluation_leaves_history_witness:
  "improvement_history (snd run0) = [] \<and>
   trend (performance_analysis (fst (analyze_training_results (snd run0) ''model.pt''
     (Some (metrics_all 0.75)) ''standard'' ''2025-01-02T00:00:00'' ''2025-01-02T00:00:01''))) = ''initial'' \<and>
   length (improvement_history (save_analysis_results (snd run0) (fst run0))) = 1 \<and>
   trend (performance_analysis (fst (analyze_training_results
     (save_analysis_results (snd run0) (fst run0)) ''model.pt''
     (Some (metrics_all 0.75)) ''standard'' ''2025-01-02T00:00:00'' ''2025-01-02T00:00:01''))) = ''improving''"
proof -
  have e: "improvement_history (init default_cfg) = []" by (simp add: init_def)
  have o: "overall_fidelity (fst run0) = 0.5"
    by (simp add: run0_def analyze_training_results_def Let_def)
  have c: "config (save_analysis_results (snd run0) (fst run0)) = default_cfg"
    by (simp add: save_analysis_results_def run0_def init_def)
  from evaluation_leaves_history [of "init default_cfg" "''model.pt''" "Some (metrics_all 0.5)"
    "''standard''" "''2025-01-01T00:00:00''" "''2025-01-01T00:00:01''" "[]" "fst run0"] e
  have h0: "improvement_history (snd run0) = []" by (simp add: run0_def)
  from evaluation_leaves_history [of "snd run0" "''model.pt''" "Some (metrics_all 0.5)"
    "''standard''" "''2025-01-01T00:00:00''" "''2025-01-01T00:00:01''" "[]" "fst run0"] h0
  have h1: "improvement_history (save_analysis_results (snd run0) (fst run0)) =
     [\<lparr>h_timestamp = timestamp (fst run0),
       h_fidelity_metrics = [''overall_fidelity'' \<mapsto> overall_fidelity (fst run0)],
       h_quality_status = status (quality_gate_status (fst run0)),
       h_training_mode = training_mode (fst run0)\<rparr>]" by simp
  have t0: "trend (performance_analysis (fst (analyze_training_results (snd run0) ''model.pt''
     (Some (metrics_all 0.75)) ''standard'' ''2025-01-02T00:00:00'' ''2025-01-02T00:00:01''))) = ''initial''"
    using h0 by (simp add: analyze_training_results_def analyze_performance_trends_def Let_def)
  have t1: "trend (performance_analysis (fst (analyze_training_results
     (save_analysis_results (snd run0) (fst run0)) ''model.pt''
     (Some (metrics_all 0.75)) ''standard'' ''2025-01-02T00:00:00'' ''2025-01-02T00:00:01''))) = ''improving''"
    using h1 c o by (simp add: analyze_training_results_def analyze_performance_trends_def Let_def
        get_metric_upd default_cfg_def)
  from h0 t0 h1 t1 show ?thesis by simp
qed

subsection \<open>Hyperparameter adjustments\<close>

text \<open>
  C7, as stated, fails on the name of the second entry: for a score of 0.5 the map has
  no key \<open>max_iterations\<close>.
\<close>

theorem hyperparameter_key_counterexample:
  "score (gate_overall_fidelity (individual_gates
     (evaluate_quality_gates default_cfg (metrics_all 0.5) ''standard''))) < 0.7 \<and>
   hyperparameter_adjustments (generate_automation_triggers default_cfg
     (evaluate_quality_gates default_cfg (metrics_all 0.5) ''standard'') ''standard'')
     ''max_iterations'' = None"
  by (simp add: generate_automation_triggers_def evaluate_quality_gates_def Let_def)

text \<open>
  C7, amended. When the overall-fidelity gate's score is strictly below 0.7 the
  \<open>hyperparameter_adjustments\<close> map is exactly \<open>learning_rate = increase\<close> and
  \<open>max_iters = increase\<close>; for a score of 0.7 or more it is empty.
\<close>

theorem hyperparameter_adjustments_by_score:
  "(score (gate_overall_fidelity (individual_gates qs)) < 0.7 \<longrightarrow>
      hyperparameter_adjustments (generate_automation_triggers cfg qs mode) =
        [''learning_rate'' \<mapsto> ''increase'', ''max_iters'' \<mapsto> ''increase'']) \<and>
   (0.7 \<le> score (gate_overall_fidelity (individual_gates qs)) \<longrightarrow>
      hyperparameter_adjustments (generate_automation_triggers cfg qs mode) = Map.empty)"
  by (simp add: generate_automation_triggers_def Let_def)

text \<open>
  The failed standard-mode run with every score at 0.5 gets both entries.
\<close>

theorem hyperparameter_adjustments_by_score_witness:
  "score (gate_overall_fidelity (individual_gates
     (evaluate_quality_gates default_cfg (metrics_all 0.5) ''standard''))) < 0.7 \<and>
   hyperparameter_adjustments (generate_automation_triggers default_cfg
     (evaluate_quality_gates default_cfg (metrics_all 0.5) ''standard'') ''standard'')
     ''learning_rate'' = Some ''increase'' \<and>
   hyperparameter_adjustments (generate_automation_triggers default_cfg
     (evaluate_quality_gates default_cfg (metrics_all 0.5) ''standard'') ''standard'')
     ''max_iters'' = Some ''increase''"
proof -
  have "score (gate_overall_fidelity (individual_gates
     (evaluate_quality_gates default_cfg (metrics_all 0.5) ''standard''))) < 0.7"
    by (simp add: evaluate_quality_gates_def Let_def)
  with hyperparameter_adjustments_by_score [of
      "evaluate_quality_gates default_cfg (metrics_all 0.5) ''standard''" default_cfg "''standard''"]
  show ?thesis by simp
qed

subsection \<open>The action flags\<close>

text \<open>
  C9. Of \<open>deploy_model\<close>, \<open>continue_training\<close> and \<open>retrain_required\<close> exactly one is
  set, for every gate result and mode; \<open>retrain_required\<close> comes with
  \<open>manual_review_needed\<close>; and the rule for relentless mode that follows the decision
  table changes \<open>schedule_next_cycle\<close> only.
\<close>

theorem one_primary_action:
  "((deploy_model (determine_next_actions qs recs mode) \<and>
      \<not> continue_training (determine_next_actions qs recs mode) \<and>
      \<not> retrain_required (determine_next_actions qs recs mode)) \<or>
    (\<not> deploy_model (determine_next_actions qs recs mode) \<and>
      continue_training (determine_next_actions qs recs mode) \<and>
      \<not> retrain_required (determine_next_actions qs recs mode)) \<or>
    (\<not> deploy_model (determine_next_actions qs recs mode) \<and>
      \<not> continue_training (determine_next_actions qs recs mode) \<and>
      retrain_required (determine_next_actions qs recs mode))) \<and>
   (retrain_required (determine_next_actions qs recs mode) \<longrightarrow>
      manual_review_needed (determine_next_actions qs recs mode)) \<and>
   determine_next_actions qs recs mode =
     (decision_table qs mode)
       \<lparr>schedule_next_cycle :=
          schedule_next_cycle (decision_table qs mode) \<or>
          (mode = ''relentless'' \<and> \<not> deployment_ready qs)\<rparr>"
  by (simp add: determine_next_actions_def decision_table_def Let_def)

text \<open>
  A relentless run with every score at 0.25: retraining and manual review, no deployment,
  no continuation, and the next cycle scheduled by the relentless rule alone.
\<close>

theorem one_primary_action_witness:
  "retrain_required (determine_next_actions
     (evaluate_quality_gates default_cfg (metrics_all 0.25) ''relentless'')
     no_recommendations ''relentless'') \<and>
   manual_review_needed (determine_next_actions
     (evaluate_quality_gates default_cfg (metrics_all 0.25) ''relentless'')
     no_recommendations ''relentless'') \<and>
   \<not> deploy_model (determine_next_actions
     (evaluate_quality_gates default_cfg (metrics_all 0.25) ''relentless'')
     no_recommendations ''relentless'') \<and>
   \<not> continue_training (determine_next_actions
     (evaluate_quality_gates default_cfg (metrics_all 0.25) ''relentless'')
     no_recommendations ''relentless'') \<and>
   schedule_next_cycle (determine_next_actions
     (evaluate_quality_gates default_cfg (metrics_all 0.25) ''relentless'')
     no_recommendations ''relentless'') \<and>
   \<not> schedule_next_cycle (decision_table
     (evaluate_quality_gates default_cfg (metrics_all 0.25) ''relentless'') ''relentless'')"
proof -
  let ?qs = "evaluate_quality_gates default_cfg (metrics_all 0.25) ''relentless''"
  have r: "retrain_required (determine_next_actions ?qs no_recommendations ''relentless'')"
    and s: "schedule_next_cycle (determine_next_actions ?qs no_recommendations ''relentless'')"
    and t: "\<not> schedule_next_cycle (decision_table ?qs ''relentless'')"
    by (simp_all add: determine_next_actions_def decision_table_def evaluate_quality_gates_def
        gate_items_def default_cfg_def Let_def)
  from one_primary_action [of ?qs no_recommendations "''relentless''"] r s t
  show ?thesis by blast
qed

subsection \<open>The deployment group\<close>

text \<open>
  C10. No decision function reads the \<open>deployment\<close> group: replacing it changes neither
  the gate result, the trend, the triggers nor the analysis result. Under the defaults,
  where \<open>enable_automated_deployment\<close> is false, a relentless run with every score at 0.9
  sets \<open>deploy_model\<close>.
\<close>

theorem deployment_group_unread:
  "evaluate_quality_gates (cfg\<lparr>cfg_deployment := d\<rparr>) m mode = evaluate_quality_gates cfg m mode \<and>
   analyze_performance_trends (cfg\<lparr>cfg_deployment := d\<rparr>) hist m =
     analyze_performance_trends cfg hist m \<and>
   generate_automation_triggers (cfg\<lparr>cfg_deployment := d\<rparr>) qs mode =
     generate_automation_triggers cfg qs mode \<and>
   fst (analyze_training_results (self\<lparr>config := (config self)\<lparr>cfg_deployment := d\<rparr>\<rparr>)
          p ev mode n1 n2) =
     fst (analyze_training_results self p ev mode n1 n2) \<and>
   \<not> enable_automated_deployment (cfg_deployment default_cfg) \<and>
   deploy_model (next_actions (fst (analyze_training_results (init default_cfg) p
     (Some (metrics_all 0.9)) ''relentless'' n1 n2)))"
  by (simp add: evaluate_quality_gates_def analyze_performance_trends_def
      generate_automation_triggers_def analyze_training_results_def Let_def
      default_cfg_def init_def determine_next_actions_def decision_table_def gate_items_def)

text \<open>
  The same relentless run under the defaults and under a configuration with automated
  deployment switched on: one analysis result, with \<open>deploy_model\<close> set.
\<close>

theorem deployment_group_unread_witness:
  "fst (analyze_training_results (init (default_cfg\<lparr>cfg_deployment := automated_deployment\<rparr>))
     ''model.pt'' (Some (metrics_all 0.9)) ''relentless''
     ''2025-01-01T00:00:00'' ''2025-01-01T00:00:01'') =
   fst (analyze_training_results (init default_cfg)
     ''model.pt'' (Some (metrics_all 0.9)) ''relentless''
     ''2025-01-01T00:00:00'' ''2025-01-01T00:00:01'') \<and>
   \<not> enable_automated_deployment (cfg_deployment default_cfg) \<and>
   enable_automated_deployment
     (cfg_deployment (default_cfg\<lparr>cfg_deployment := automated_deployment\<rparr>)) \<and>
   deploy_model (next_actions (fst (analyze_training_results (init default_cfg)
     ''model.pt'' (Some (metrics_all 0.9)) ''relentless''
     ''2025-01-01T00:00:00'' ''2025-01-01T00:00:01'')))"
proof -
  have i: "init (default_cfg\<lparr>cfg_deployment := automated_deployment\<rparr>) =
      (init default_cfg)\<lparr>config := (config (init default_cfg))
        \<lparr>cfg_deployment := automated_deployment\<rparr>\<rparr>"
    by (simp add: init_def)
  have a: "enable_automated_deployment
      (cfg_deployment (default_cfg\<lparr>cfg_deployment := automated_deployment\<rparr>))"
    by (simp add: automated_deployment_def)
  from deployment_group_unread [where cfg = default_cfg and d = automated_deployment
      and m = "metrics_all 0.9" and mode = "''relentless''" and hist = "[]"
      and qs = "evaluate_quality_gates default_cfg (metrics_all 0.9) ''relentless''"
      and self = "init default_cfg" and p = "''model.pt''" and ev = "Some (metrics_all 0.9)"
      and ?n1.0 = "''2025-01-01T00:00:00''" and ?n2.0 = "''2025-01-01T00:00:01''"] i a
  show ?thesis by simp
qed

subsection \<open>Loading the configuration\<close>













end
